theory Spec2Isabelle
  imports Main
begin

section \<open>Python values and exceptions\<close>

text \<open>
  The values that reach the code from outside are what the JSON loader returns and what a
  caller passes for \<open>locate_by\<close>: \<open>None\<close>, booleans, integers, strings, lists and
  dictionaries. A dictionary is kept as an association list read with \<open>map_of\<close> (the
  loaded dictionary has one binding for each key). The singleton \<open>False\<close>, the default
  of \<open>locate_by\<close> and of \<open>hook_file_name\<close>, is \<open>PyBool False\<close>.
\<close>

datatype py_val =
    PyNone
  | PyBool bool
  | PyInt int
  | PyStr string
  | PyList "py_val list"
  | PyDict "(string \<times> py_val) list"

text \<open>
  Exceptions are values. \<open>PyException msg\<close> is a plain \<open>Exception(msg)\<close>;
  \<open>EngineError\<close> stands for whatever the browser-automation or database library raises.
\<close>

datatype error =
    AttributeError
  | KeyError
  | FileNotFoundError
  | PyException string
  | DatabaseReturnedNothingError
  | EngineError string

text \<open>\<open>obj.get(key)\<close>: a dictionary answers \<open>None\<close> for a missing key; any other
  value loaded from JSON has no attribute \<open>get\<close>.\<close>

fun py_get :: "py_val \<Rightarrow> string \<Rightarrow> error + py_val" where
  "py_get (PyDict d) key = Inr (case map_of d key of None \<Rightarrow> PyNone | Some v \<Rightarrow> v)"
| "py_get PyNone key = Inl AttributeError"
| "py_get (PyBool b) key = Inl AttributeError"
| "py_get (PyInt i) key = Inl AttributeError"
| "py_get (PyStr s) key = Inl AttributeError"
| "py_get (PyList xs) key = Inl AttributeError"

section \<open>driver/driver_interface.py\<close>

subsection \<open>Hooks\<close>

text \<open>
  A \<open>Hooks\<close> object is the value \<open>LoadJson.using_filepath\<close> returned for the hook
  file (the loader is not part of the sources; its result is a parameter here).
  \<open>get_hook\<close> reads the entry with \<open>self.hooks.get(hook_name)\<close> and then its
  \<open>type\<close> and \<open>value\<close> with \<open>hook.get\<close>.
\<close>

type_synonym Hooks = py_val

definition get_hook :: "Hooks \<Rightarrow> string \<Rightarrow> error + (py_val \<times> py_val)" where
  "get_hook hooks hook_name =
     (case py_get hooks hook_name of
        Inl e \<Rightarrow> Inl e
      | Inr hook \<Rightarrow>
          (case py_get hook ''type'' of
             Inl e \<Rightarrow> Inl e
           | Inr hook_type \<Rightarrow>
               (case py_get hook ''value'' of
                  Inl e \<Rightarrow> Inl e
                | Inr hook_value \<Rightarrow> Inr (hook_type, hook_value))))"

definition get_hook_type :: "Hooks \<Rightarrow> string \<Rightarrow> error + py_val" where
  "get_hook_type hooks hook_name =
     (case get_hook hooks hook_name of Inl e \<Rightarrow> Inl e | Inr p \<Rightarrow> Inr (fst p))"

definition get_hook_value :: "Hooks \<Rightarrow> string \<Rightarrow> error + py_val" where
  "get_hook_value hooks hook_name =
     (case get_hook hooks hook_name of Inl e \<Rightarrow> Inl e | Inr p \<Rightarrow> Inr (snd p))"

subsection \<open>The driver session\<close>

text \<open>
  The browser engine is outside the program. Each call the code makes on it is recorded
  as a \<open>command\<close>, and its outcome is read from an oracle: \<open>Some e\<close> or \<open>Inl e\<close>
  when the engine raises \<open>e\<close>. A web element is an opaque handle.
\<close>

type_synonym element = nat

datatype command =
    WaitVisible py_val py_val
  | WaitInvisible py_val py_val
  | FindElement py_val py_val
  | Click element
  | SendKeys element string
  | MoveToElement element
  | GetText element
  | SaveScreenshot string

record webdriver =
  wait_until_visible :: "py_val \<Rightarrow> py_val \<Rightarrow> error option"
  wait_until_invisible :: "py_val \<Rightarrow> py_val \<Rightarrow> error option"
  find_element :: "py_val \<Rightarrow> py_val \<Rightarrow> error + element"
  click :: "element \<Rightarrow> error option"
  send_keys :: "element \<Rightarrow> string \<Rightarrow> error option"
  move_to_element_perform :: "element \<Rightarrow> error option"
  element_text :: "element \<Rightarrow> error + string"
  save_screenshot :: "string \<Rightarrow> error option"

record DriverHelper =
  driver_name :: string
  capability_dir :: string
  screenshot_dir :: string

text \<open>\<open>hooks\<close> is \<open>None\<close> when \<open>self.hooks\<close> is \<open>False\<close> (no hook file was named),
  and the \<open>Hooks\<close> object otherwise.\<close>

record DriverActions =
  driver_setup :: DriverHelper
  driver :: webdriver
  hooks :: "Hooks option"

text \<open>What a call did and gave: the commands sent to the engine, in order, and the
  returned value or the raised exception.\<close>

type_synonym outcome = "command list \<times> (error + py_val)"

text \<open>A command whose result is not used: the call returns \<open>None\<close> unless it raises.\<close>

definition perform :: "command list \<Rightarrow> error option \<Rightarrow> outcome" where
  "perform cmds r = (case r of Some e \<Rightarrow> (cmds, Inl e) | None \<Rightarrow> (cmds, Inr PyNone))"

text \<open>The decorator \<open>DriverDecorators.check_locate_by\<close>. The wrapped function is called
  in one place only, inside both tests; every other path falls off the end of
  \<open>_check_if_hook_needed\<close> and returns \<open>None\<close>.\<close>

definition check_locate_by ::
  "(DriverActions \<Rightarrow> py_val \<Rightarrow> py_val \<Rightarrow> outcome) \<Rightarrow>
   DriverActions \<Rightarrow> string \<Rightarrow> py_val \<Rightarrow> outcome" where
  "check_locate_by driver_fn self hook_value locate_by =
     (case hooks self of
        Some h \<Rightarrow>
          if locate_by = PyBool False then
            (case get_hook_type h hook_value of
               Inl e \<Rightarrow> ([], Inl e)
             | Inr locate_by' \<Rightarrow>
                 (case get_hook_value h hook_value of
                    Inl e \<Rightarrow> ([], Inl e)
                  | Inr hook_value' \<Rightarrow> driver_fn self hook_value' locate_by'))
          else ([], Inr PyNone)
      | None \<Rightarrow> ([], Inr PyNone))"

text \<open>\<open>DriverActions._check_locate_by\<close>, the helper of the methods that take more
  than the two locator arguments.\<close>

definition check_locate_by_helper ::
  "DriverActions \<Rightarrow> string \<Rightarrow> py_val \<Rightarrow> error + (py_val \<times> py_val)" where
  "check_locate_by_helper self hook_value locate_by =
     (case hooks self of
        Some h \<Rightarrow>
          if locate_by = PyBool False then get_hook h hook_value
          else Inr (locate_by, PyStr hook_value)
      | None \<Rightarrow> Inr (locate_by, PyStr hook_value))"

text \<open>The bodies of the decorated methods, as written under the decorator.\<close>

definition wait_for_element_visible_body :: "DriverActions \<Rightarrow> py_val \<Rightarrow> py_val \<Rightarrow> outcome" where
  "wait_for_element_visible_body self hook_value locate_by =
     perform [WaitVisible locate_by hook_value]
       (wait_until_visible (driver self) locate_by hook_value)"

definition wait_until_element_invisible_body :: "DriverActions \<Rightarrow> py_val \<Rightarrow> py_val \<Rightarrow> outcome" where
  "wait_until_element_invisible_body self hook_value locate_by =
     perform [WaitInvisible locate_by hook_value]
       (wait_until_invisible (driver self) locate_by hook_value)"

definition select_element_body :: "DriverActions \<Rightarrow> py_val \<Rightarrow> py_val \<Rightarrow> outcome" where
  "select_element_body self hook_value locate_by =
     (case find_element (driver self) locate_by hook_value of
        Inl e \<Rightarrow> ([FindElement locate_by hook_value], Inl e)
      | Inr el \<Rightarrow>
          perform [FindElement locate_by hook_value, Click el] (click (driver self) el))"

definition hover_over_element_body :: "DriverActions \<Rightarrow> py_val \<Rightarrow> py_val \<Rightarrow> outcome" where
  "hover_over_element_body self hook_value locate_by =
     (case find_element (driver self) locate_by hook_value of
        Inl e \<Rightarrow> ([FindElement locate_by hook_value], Inl e)
      | Inr el \<Rightarrow>
          perform [FindElement locate_by hook_value, MoveToElement el]
            (move_to_element_perform (driver self) el))"

definition get_element_text_body :: "DriverActions \<Rightarrow> py_val \<Rightarrow> py_val \<Rightarrow> outcome" where
  "get_element_text_body self hook_value locate_by =
     (case find_element (driver self) locate_by hook_value of
        Inl e \<Rightarrow> ([FindElement locate_by hook_value], Inl e)
      | Inr el \<Rightarrow>
          (case element_text (driver self) el of
             Inl e \<Rightarrow> ([FindElement locate_by hook_value, GetText el], Inl e)
           | Inr s \<Rightarrow> ([FindElement locate_by hook_value, GetText el], Inr (PyStr s))))"

text \<open>The methods as a caller sees them.\<close>

definition wait_for_element_visible :: "DriverActions \<Rightarrow> string \<Rightarrow> py_val \<Rightarrow> outcome" where
  "wait_for_element_visible = check_locate_by wait_for_element_visible_body"

definition wait_until_element_invisible :: "DriverActions \<Rightarrow> string \<Rightarrow> py_val \<Rightarrow> outcome" where
  "wait_until_element_invisible = check_locate_by wait_until_element_invisible_body"

definition select_element :: "DriverActions \<Rightarrow> string \<Rightarrow> py_val \<Rightarrow> outcome" where
  "select_element = check_locate_by select_element_body"

definition hover_over_element :: "DriverActions \<Rightarrow> string \<Rightarrow> py_val \<Rightarrow> outcome" where
  "hover_over_element = check_locate_by hover_over_element_body"

definition get_element_text :: "DriverActions \<Rightarrow> string \<Rightarrow> py_val \<Rightarrow> outcome" where
  "get_element_text = check_locate_by get_element_text_body"

definition fill_in_field :: "DriverActions \<Rightarrow> string \<Rightarrow> string \<Rightarrow> py_val \<Rightarrow> outcome" where
  "fill_in_field self input_text hook_value locate_by =
     (case check_locate_by_helper self hook_value locate_by of
        Inl e \<Rightarrow> ([], Inl e)
      | Inr (locate_by', hook_value') \<Rightarrow>
          (case find_element (driver self) locate_by' hook_value' of
             Inl e \<Rightarrow> ([FindElement locate_by' hook_value'], Inl e)
           | Inr el \<Rightarrow>
               perform [FindElement locate_by' hook_value', SendKeys el input_text]
                 (send_keys (driver self) el input_text)))"

subsection \<open>Screenshots\<close>

text \<open>
  The file system as \<open>take_screenshot\<close> reads it: each directory path that exists is
  mapped to the names \<open>os.listdir\<close> returns for it. \<open>os.listdir\<close> raises
  \<open>FileNotFoundError\<close> for a path that does not exist.
\<close>

type_synonym filesystem = "string \<rightharpoonup> string list"

definition path_exists :: "filesystem \<Rightarrow> string \<Rightarrow> bool" where
  "path_exists fs directory = (fs directory \<noteq> None)"

definition makedirs :: "filesystem \<Rightarrow> string \<Rightarrow> filesystem" where
  "makedirs fs directory = fs(directory \<mapsto> [])"

definition listdir :: "filesystem \<Rightarrow> string \<Rightarrow> error + string list" where
  "listdir fs directory =
     (case fs directory of None \<Rightarrow> Inl FileNotFoundError | Some names \<Rightarrow> Inr names)"

text \<open>How an f-string prints a count: decimal digits, most significant first.\<close>

definition digit_char :: "nat \<Rightarrow> char" where
  "digit_char d = ''0123456789'' ! d"

function py_str :: "nat \<Rightarrow> string" where
  "py_str n = (if n < 10 then [digit_char n] else py_str (n div 10) @ [digit_char (n mod 10)])"
  by pat_completeness auto
termination
  by (relation "measure (\<lambda>n. n)") auto

declare py_str.simps [simp del]

text \<open>
  \<open>take_screenshot(self, directory=None, file_name='test')\<close>. The path given to the
  engine's \<open>save_screenshot\<close> is the f-string
  \<open>{directory}{file_name}-{num_of_screenshots}.png\<close>: the three parts are put side by
  side, with nothing between \<open>directory\<close> and \<open>file_name\<close>. The result also carries
  the file system after the call, which differs only when the default directory had to be
  created; the file itself is written by the engine.
\<close>

definition take_screenshot ::
  "DriverActions \<Rightarrow> filesystem \<Rightarrow> string option \<Rightarrow> string \<Rightarrow> filesystem \<times> outcome" where
  "take_screenshot self fs directory file_name =
     (let (directory', fs') =
            (case directory of
               None \<Rightarrow>
                 (let d = screenshot_dir (driver_setup self)
                  in (d, if \<not> path_exists fs d then makedirs fs d else fs))
             | Some d \<Rightarrow> (d, fs))
      in case listdir fs' directory' of
           Inl e \<Rightarrow> (fs', [], Inl e)
         | Inr names \<Rightarrow>
             (let num_of_screenshots = length names;
                  path = directory' @ file_name @ ''-'' @ py_str num_of_screenshots @ ''.png''
              in (fs', perform [SaveScreenshot path] (save_screenshot (driver self) path))))"

section \<open>utilities/database.py\<close>

subsection \<open>Connecting with retries\<close>

text \<open>
  What a run of \<open>connect_to_db\<close> does besides returning: it tries to connect, and after
  a failed try it warns with the error and sleeps. \<open>warnings.warn\<close> reports the warning
  and returns (warnings are not turned into exceptions); \<open>time.sleep(delay)\<close> blocks
  for \<open>delay\<close> seconds.
\<close>

datatype event = Attempt nat | Warn error | Sleep nat

text \<open>
  The database server and the SSH tunnel are outside the program. \<open>direct i\<close> is what
  the body of the \<open>try\<close> gives on the try numbered \<open>i\<close> (from 0) when it connects
  straight to the host, \<open>tunnelled i\<close> when it opens the tunnel first: \<open>Inr\<close> the
  connection, or \<open>Inl\<close> the exception raised (by the tunnel or by the client).
\<close>

record 'c database =
  direct :: "nat \<Rightarrow> error + 'c"
  tunnelled :: "nat \<Rightarrow> error + 'c"

text \<open>The loop \<open>while True\<close> of both \<open>connect_to_db\<close> methods, with the local variables
  \<open>retry_limit\<close>, \<open>delay\<close> and \<open>attempt\<close> as arguments, and the events so far.\<close>

function connect_loop ::
  "(nat \<Rightarrow> error + 'c) \<Rightarrow> nat \<Rightarrow> nat \<Rightarrow> nat \<Rightarrow> event list \<Rightarrow> event list \<times> (error + 'c)" where
  "connect_loop try_connect retry_limit delay attempt done =
     (if attempt \<le> retry_limit then
        (case try_connect attempt of
           Inr conn \<Rightarrow> (done @ [Attempt attempt], Inr conn)
         | Inl err \<Rightarrow>
             connect_loop try_connect retry_limit delay (attempt + 1)
               (done @ [Attempt attempt, Warn err, Sleep delay]))
      else (done, Inl (PyException ''Unable to connect to Database. See console logs.'')))"
  by pat_completeness auto
termination
  by (relation "measure (\<lambda>(t, retry_limit, d, attempt, tr). retry_limit + 1 - attempt)") auto

declare connect_loop.simps [simp del]

text \<open>The body of the \<open>try\<close>: \<open>MySql.connect_to_db\<close> opens the tunnel when
  \<open>use_ssh == 1\<close>, \<open>PostGre.connect_to_db\<close> connects straight when \<open>use_ssh == 0\<close>.\<close>

definition MySql_try :: "'c database \<Rightarrow> int \<Rightarrow> nat \<Rightarrow> error + 'c" where
  "MySql_try db use_ssh attempt =
     (if use_ssh = 1 then tunnelled db attempt else direct db attempt)"

definition PostGre_try :: "'c database \<Rightarrow> int \<Rightarrow> nat \<Rightarrow> error + 'c" where
  "PostGre_try db use_ssh attempt =
     (if use_ssh = 0 then direct db attempt else tunnelled db attempt)"

definition MySql_connect_to_db :: "'c database \<Rightarrow> int \<Rightarrow> event list \<times> (error + 'c)" where
  "MySql_connect_to_db db use_ssh = connect_loop (MySql_try db use_ssh) 3 2 0 []"

definition PostGre_connect_to_db :: "'c database \<Rightarrow> int \<Rightarrow> event list \<times> (error + 'c)" where
  "PostGre_connect_to_db db use_ssh = connect_loop (PostGre_try db use_ssh) 3 2 0 []"

text \<open>The error the specification calls \<open>ConnectionExhaustedError\<close> is the plain
  exception the loop raises when the tries are used up.\<close>

definition ConnectionExhaustedError :: error where
  "ConnectionExhaustedError = PyException ''Unable to connect to Database. See console logs.''"

text \<open>The events of the tries \<open>i, i + 1, ..., j - 1\<close> when all of them fail.\<close>

definition failed_tries :: "(nat \<Rightarrow> error + 'c) \<Rightarrow> nat \<Rightarrow> nat \<Rightarrow> nat \<Rightarrow> event list" where
  "failed_tries try_connect delay i j =
     concat (map (\<lambda>k. [Attempt k, Warn (projl (try_connect k)), Sleep delay]) [i..<j])"

definition is_attempt :: "event \<Rightarrow> bool" where
  "is_attempt ev = (case ev of Attempt k \<Rightarrow> True | Warn e \<Rightarrow> False | Sleep d \<Rightarrow> False)"

definition is_sleep :: "event \<Rightarrow> bool" where
  "is_sleep ev = (case ev of Attempt k \<Rightarrow> False | Warn e \<Rightarrow> False | Sleep d \<Rightarrow> True)"

subsection \<open>Queries that return rows\<close>

text \<open>
  The test \<open>raw_results is []\<close> compares object identities, so the lists live in a
  store: an address is an index into it, a new list is put at the end. \<open>fetchall\<close> and
  the literal \<open>[]\<close> each make a new list.
\<close>

type_synonym 'r store = "'r list list"

definition new_list :: "'r store \<Rightarrow> 'r list \<Rightarrow> nat \<times> 'r store" where
  "new_list st xs = (length st, st @ [xs])"

text \<open>A connection answers a script with the rows \<open>fetchall\<close> will give, or with the
  exception \<open>execute\<close> raises. The flag in the result of the PostgreSQL method says
  whether \<open>conn.close()\<close> was called.\<close>

type_synonym 'r connection = "string \<Rightarrow> error + 'r list"

definition MySql_execute_query_return_results ::
  "'r store \<Rightarrow> 'r connection \<Rightarrow> string \<Rightarrow> error + 'r list" where
  "MySql_execute_query_return_results st conn script =
     (case conn script of
        Inl e \<Rightarrow> Inl e
      | Inr rows \<Rightarrow>
          (let (raw_results, st1) = new_list st rows;
               (empty_list, st2) = new_list st1 []
           in if raw_results = empty_list then Inl DatabaseReturnedNothingError
              else Inr (st2 ! raw_results)))"

definition PostGre_execute_query_return_results ::
  "'r store \<Rightarrow> 'r connection \<Rightarrow> string \<Rightarrow> bool \<times> (error + 'r list)" where
  "PostGre_execute_query_return_results st conn script =
     (case conn script of
        Inl e \<Rightarrow> (False, Inl e)
      | Inr rows \<Rightarrow>
          (let (results, st1) = new_list st rows;
               (empty_list, st2) = new_list st1 []
           in if results = empty_list then (True, Inl DatabaseReturnedNothingError)
              else (True, Inr (st2 ! results))))"

section \<open>core/core_details.py\<close>

text \<open>
  \<open>TestDefinition.id_itr\<close> is \<open>itertools.count()\<close>, one iterator for the class: its
  state is the next number it will give, 0 at first. \<open>__init__\<close> takes \<open>next\<close> of it
  and sets the other fields to \<open>None\<close>, the status to \<open>Untested\<close>.
\<close>

record TestDefinition =
  test_id :: int
  test_pack :: py_val
  test_suite :: py_val
  test_name :: py_val
  platform :: py_val
  capability :: py_val
  test_configuration :: py_val
  test_status :: string
  test_start_time :: py_val
  test_end_time :: py_val
  comments :: py_val
  test_screenshot_dir :: py_val

definition id_itr_start :: int where
  "id_itr_start = 0"

definition next_id :: "int \<Rightarrow> int \<times> int" where
  "next_id id_itr = (id_itr, id_itr + 1)"

definition TestDefinition_init :: "int \<Rightarrow> TestDefinition \<times> int" where
  "TestDefinition_init id_itr =
     (let (n, id_itr') = next_id id_itr
      in (\<lparr>test_id = n, test_pack = PyNone, test_suite = PyNone, test_name = PyNone,
           platform = PyNone, capability = PyNone, test_configuration = PyNone,
           test_status = ''Untested'', test_start_time = PyNone, test_end_time = PyNone,
           comments = PyNone, test_screenshot_dir = PyNone\<rparr>, id_itr'))"

text \<open>\<open>n\<close> constructions one after the other, oldest first, and the iterator after them.\<close>

fun construct_many :: "nat \<Rightarrow> int \<Rightarrow> TestDefinition list \<times> int" where
  "construct_many 0 id_itr = ([], id_itr)"
| "construct_many (Suc n) id_itr =
     (let (t, id_itr') = TestDefinition_init id_itr;
          (ts, id_itr'') = construct_many n id_itr'
      in (t # ts, id_itr''))"

section \<open>Example objects\<close>

text \<open>An engine on which every command succeeds, a session without hooks and one with
  the hook file of the specification's scenario, and two databases.\<close>

definition quiet_driver :: webdriver where
  "quiet_driver =
     \<lparr>wait_until_visible = (\<lambda>kind v. None), wait_until_invisible = (\<lambda>kind v. None),
      find_element = (\<lambda>kind v. Inr 0), click = (\<lambda>el. None), send_keys = (\<lambda>el s. None),
      move_to_element_perform = (\<lambda>el. None), element_text = (\<lambda>el. Inr ''Log in''),
      save_screenshot = (\<lambda>path. None)\<rparr>"

definition example_setup :: DriverHelper where
  "example_setup =
     \<lparr>driver_name = ''selenium'', capability_dir = ''capabilities'',
      screenshot_dir = ''screenshots''\<rparr>"

definition login_hooks :: Hooks where
  "login_hooks =
     PyDict [(''login_button'', PyDict [(''type'', PyStr ''id''), (''value'', PyStr ''btn1'')])]"

definition session_without_hooks :: DriverActions where
  "session_without_hooks =
     \<lparr>driver_setup = example_setup, driver = quiet_driver, hooks = None\<rparr>"

definition session_with_hooks :: DriverActions where
  "session_with_hooks =
     \<lparr>driver_setup = example_setup, driver = quiet_driver, hooks = Some login_hooks\<rparr>"

definition unreachable_db :: "nat database" where
  "unreachable_db =
     \<lparr>direct = (\<lambda>i. Inl (EngineError ''connection refused'')),
      tunnelled = (\<lambda>i. Inl (EngineError ''tunnel failed''))\<rparr>"

definition slow_db :: "nat database" where
  "slow_db =
     \<lparr>direct = (\<lambda>i. if i < 2 then Inl (EngineError ''connection refused'') else Inr 7),
      tunnelled = (\<lambda>i. if i < 2 then Inl (EngineError ''tunnel failed'') else Inr 7)\<rparr>"

section \<open>Hook lookup\<close>

text \<open>
  C5. For a registry loaded from any number of hook definitions and a name present in it,
  \<open>get_hook\<close> returns exactly the pair (kind, value) stored under that name: the entry's
  \<open>type\<close> first, its \<open>value\<close> second.
\<close>

theorem get_hook_returns_stored:
  assumes "map_of registry name = Some (PyDict hook)"
    and "map_of hook ''type'' = Some kind"
    and "map_of hook ''value'' = Some val"
  shows "get_hook (PyDict registry) name = Inr (kind, val)"
  using assms by (simp add: get_hook_def)

theorem get_hook_returns_stored_witness:
  "map_of [(''login_button'', PyDict [(''type'', PyStr ''id''), (''value'', PyStr ''btn1'')])]
       ''login_button'' = Some (PyDict [(''type'', PyStr ''id''), (''value'', PyStr ''btn1'')])
   \<and> map_of [(''type'', PyStr ''id''), (''value'', PyStr ''btn1'')] ''type'' = Some (PyStr ''id'')
   \<and> map_of [(''type'', PyStr ''id''), (''value'', PyStr ''btn1'')] ''value'' = Some (PyStr ''btn1'')
   \<and> get_hook login_hooks ''login_button'' = Inr (PyStr ''id'', PyStr ''btn1'')"
  using get_hook_returns_stored
    [of "[(''login_button'', PyDict [(''type'', PyStr ''id''), (''value'', PyStr ''btn1'')])]"
        "''login_button''" "[(''type'', PyStr ''id''), (''value'', PyStr ''btn1'')]"
        "PyStr ''id''" "PyStr ''btn1''"]
  by (simp add: login_hooks_def)

text \<open>
  C9, as the code has it. For a name absent from the registry \<open>self.hooks.get\<close> gives
  \<open>None\<close> without raising, and the lookup fails one line later, when \<open>None\<close> is asked
  for \<open>get\<close>: the error is an \<open>AttributeError\<close>.
\<close>

theorem get_hook_absent_name:
  assumes "map_of registry name = None"
  shows "get_hook (PyDict registry) name = Inl AttributeError"
  using assms by (simp add: get_hook_def)

theorem get_hook_absent_name_witness:
  "map_of [(''login_button'', PyDict [(''type'', PyStr ''id''), (''value'', PyStr ''btn1'')])]
       ''logout_button'' = None
   \<and> get_hook login_hooks ''logout_button'' = Inl AttributeError"
  using get_hook_absent_name
    [of "[(''login_button'', PyDict [(''type'', PyStr ''id''), (''value'', PyStr ''btn1'')])]"
        "''logout_button''"]
  by (simp add: login_hooks_def)

text \<open>The error of a failed lookup is not a \<open>KeyError\<close>.\<close>

theorem get_hook_absent_name_not_KeyError:
  "get_hook login_hooks ''logout_button'' \<noteq> Inl KeyError"
  by (simp add: get_hook_def login_hooks_def)

section \<open>Locator resolution\<close>

lemma check_locate_by_no_hooks:
  "hooks self = None \<Longrightarrow>
   check_locate_by driver_fn self hook_value locate_by = ([], Inr PyNone)"
  by (simp add: check_locate_by_def)

lemma check_locate_by_explicit_kind:
  "locate_by \<noteq> PyBool False \<Longrightarrow>
   check_locate_by driver_fn self hook_value locate_by = ([], Inr PyNone)"
  by (simp add: check_locate_by_def split: option.splits)

lemma check_locate_by_helper_explicit_kind:
  "locate_by \<noteq> PyBool False \<Longrightarrow>
   check_locate_by_helper self hook_value locate_by = Inr (locate_by, PyStr hook_value)"
  by (simp add: check_locate_by_helper_def split: option.splits)

lemma check_locate_by_helper_no_hooks:
  "hooks self = None \<Longrightarrow>
   check_locate_by_helper self hook_value locate_by = Inr (locate_by, PyStr hook_value)"
  by (simp add: check_locate_by_helper_def)

text \<open>The scenario of the specification, by hook name: the registry gives both parts.\<close>

lemma select_element_by_hook_name:
  "select_element session_with_hooks ''login_button'' (PyBool False) =
     ([FindElement (PyStr ''id'') (PyStr ''btn1''), Click 0], Inr PyNone)"
  by (simp add: select_element_def check_locate_by_def session_with_hooks_def login_hooks_def
      get_hook_type_def get_hook_value_def get_hook_def select_element_body_def
      quiet_driver_def perform_def)

text \<open>With an explicit kind, \<open>fill_in_field\<close> goes to the engine with the pair as given,
  whatever the registry holds under that name.\<close>

lemma fill_in_field_explicit_kind:
  "fill_in_field session_with_hooks ''hello'' ''login_button'' (PyStr ''xpath'') =
     ([FindElement (PyStr ''xpath'') (PyStr ''login_button''), SendKeys 0 ''hello''], Inr PyNone)"
  by (simp add: fill_in_field_def check_locate_by_helper_def session_with_hooks_def
      quiet_driver_def perform_def)

text \<open>
  C1, at the input where the code departs from it. A registry is configured, the call
  names the kind \<open>xpath\<close>, and the value is the name of a registered hook. The registry
  is not consulted, but the decorated method does not go on with the pair
  \<open>(xpath, login_button)\<close> either: no command reaches the engine and the call returns
  \<open>None\<close>.
\<close>

theorem select_element_explicit_kind_does_nothing:
  "select_element session_with_hooks ''login_button'' (PyStr ''xpath'') = ([], Inr PyNone)"
  by (simp add: select_element_def check_locate_by_def session_with_hooks_def)

text \<open>
  C10. With no hook registry configured, each of the five methods under the decorator sends
  nothing to the engine and returns \<open>None\<close>, whatever is passed for \<open>locate_by\<close>, an
  explicit kind included.
\<close>

theorem decorated_methods_without_registry:
  assumes "hooks self = None"
  shows "wait_for_element_visible self hook_value locate_by = ([], Inr PyNone)
       \<and> wait_until_element_invisible self hook_value locate_by = ([], Inr PyNone)
       \<and> select_element self hook_value locate_by = ([], Inr PyNone)
       \<and> hover_over_element self hook_value locate_by = ([], Inr PyNone)
       \<and> get_element_text self hook_value locate_by = ([], Inr PyNone)"
  using assms
  by (simp add: wait_for_element_visible_def wait_until_element_invisible_def
      select_element_def hover_over_element_def get_element_text_def check_locate_by_no_hooks)

theorem decorated_methods_without_registry_witness:
  "hooks session_without_hooks = None
   \<and> wait_for_element_visible session_without_hooks ''btn1'' (PyStr ''id'') = ([], Inr PyNone)
   \<and> wait_until_element_invisible session_without_hooks ''btn1'' (PyStr ''id'') = ([], Inr PyNone)
   \<and> select_element session_without_hooks ''btn1'' (PyStr ''id'') = ([], Inr PyNone)
   \<and> hover_over_element session_without_hooks ''btn1'' (PyStr ''id'') = ([], Inr PyNone)
   \<and> get_element_text session_without_hooks ''btn1'' (PyStr ''id'') = ([], Inr PyNone)"
proof -
  have h: "hooks session_without_hooks = None"
    by (simp add: session_without_hooks_def)
  show ?thesis
    using h decorated_methods_without_registry [OF h, of "''btn1''" "PyStr ''id''"] by simp
qed

text \<open>
  C8, as the code has it. With no hook registry configured and no explicit kind, a call of
  one of the five methods under the decorator is a no-op: nothing is sent to the engine,
  the result is \<open>None\<close>, nothing is raised. \<open>fill_in_field\<close> resolves through
  \<open>_check_locate_by\<close>, which hands back \<open>(False, hook_value)\<close>, and its first command
  to the engine is \<open>find_element(False, hook_value)\<close>.
\<close>

theorem no_registry_no_kind:
  assumes "hooks self = None"
  shows "wait_for_element_visible self hook_value (PyBool False) = ([], Inr PyNone)
       \<and> wait_until_element_invisible self hook_value (PyBool False) = ([], Inr PyNone)
       \<and> select_element self hook_value (PyBool False) = ([], Inr PyNone)
       \<and> hover_over_element self hook_value (PyBool False) = ([], Inr PyNone)
       \<and> get_element_text self hook_value (PyBool False) = ([], Inr PyNone)
       \<and> take 1 (fst (fill_in_field self input_text hook_value (PyBool False))) =
           [FindElement (PyBool False) (PyStr hook_value)]"
proof -
  have "take 1 (fst (fill_in_field self input_text hook_value (PyBool False))) =
          [FindElement (PyBool False) (PyStr hook_value)]"
    using assms
    by (simp add: fill_in_field_def check_locate_by_helper_no_hooks perform_def
        split: sum.splits option.splits)
  then show ?thesis
    using assms
    by (simp add: wait_for_element_visible_def wait_until_element_invisible_def
        select_element_def hover_over_element_def get_element_text_def check_locate_by_no_hooks)
qed

theorem no_registry_no_kind_witness:
  "hooks session_without_hooks = None
   \<and> wait_for_element_visible session_without_hooks ''username'' (PyBool False) = ([], Inr PyNone)
   \<and> wait_until_element_invisible session_without_hooks ''username'' (PyBool False) = ([], Inr PyNone)
   \<and> select_element session_without_hooks ''username'' (PyBool False) = ([], Inr PyNone)
   \<and> hover_over_element session_without_hooks ''username'' (PyBool False) = ([], Inr PyNone)
   \<and> get_element_text session_without_hooks ''username'' (PyBool False) = ([], Inr PyNone)
   \<and> take 1 (fst (fill_in_field session_without_hooks ''hello'' ''username'' (PyBool False))) =
       [FindElement (PyBool False) (PyStr ''username'')]"
proof -
  have h: "hooks session_without_hooks = None"
    by (simp add: session_without_hooks_def)
  show ?thesis
    using h no_registry_no_kind [OF h, of "''username''" "''hello''"] by simp
qed

text \<open>\<open>fill_in_field\<close> with no registry and no kind is not a no-op: on an engine that
  accepts every command it finds an element and types into it.\<close>

theorem fill_in_field_no_registry_no_kind_acts:
  "fill_in_field session_without_hooks ''hello'' ''username'' (PyBool False) =
     ([FindElement (PyBool False) (PyStr ''username''), SendKeys 0 ''hello''], Inr PyNone)
   \<and> fst (fill_in_field session_without_hooks ''hello'' ''username'' (PyBool False)) \<noteq> []"
  by (simp add: fill_in_field_def check_locate_by_helper_def session_without_hooks_def
      quiet_driver_def perform_def)

section \<open>Screenshots\<close>

text \<open>The path handed to the engine, for a directory that exists holding \<open>names\<close>.\<close>

lemma take_screenshot_path:
  "fs directory = Some names \<Longrightarrow>
   fst (snd (take_screenshot self fs (Some directory) file_name)) =
     [SaveScreenshot (directory @ file_name @ ''-'' @ py_str (length names) @ ''.png'')]"
  by (simp add: take_screenshot_def listdir_def Let_def perform_def split: option.splits)

text \<open>When the directory string ends with a separator, the path is the file
  \<open>shot-3.png\<close> inside it.\<close>

lemma take_screenshot_trailing_separator:
  "fst (snd (take_screenshot self (fs(''shots/'' \<mapsto> [''a.png'', ''b.png'', ''c.png'']))
       (Some ''shots/'') ''shot'')) = [SaveScreenshot ''shots/shot-3.png'']"
  by (simp add: take_screenshot_def listdir_def Let_def perform_def py_str.simps digit_char_def
      split: option.splits)

text \<open>
  C7, at the input where the code departs from it. The directory \<open>shots\<close> holds three
  files and the base name is \<open>shot\<close>. The count in the name is right, 3, but the path
  given to the engine is \<open>shotsshot-3.png\<close>: a file of that name next to the directory,
  not \<open>shot-3.png\<close> in it.
\<close>

theorem take_screenshot_joins_without_separator:
  "fst (snd (take_screenshot self (fs(''shots'' \<mapsto> [''a.png'', ''b.png'', ''c.png'']))
       (Some ''shots'') ''shot'')) = [SaveScreenshot ''shotsshot-3.png'']"
  by (simp add: take_screenshot_def listdir_def Let_def perform_def py_str.simps digit_char_def
      split: option.splits)

section \<open>Connecting with retries\<close>

lemma failed_tries_snoc:
  "i \<le> j \<Longrightarrow>
   failed_tries t d i (Suc j) = failed_tries t d i j @ [Attempt j, Warn (projl (t j)), Sleep d]"
  by (simp add: failed_tries_def)

text \<open>While the tries fail and the limit is not passed, the loop only adds their events.\<close>

lemma connect_loop_skip:
  assumes "a \<le> j" and "j \<le> r + 1" and "\<forall>i. a \<le> i \<and> i < j \<longrightarrow> isl (t i)"
  shows "connect_loop t r d a tr = connect_loop t r d j (tr @ failed_tries t d a j)"
  using assms
proof (induction j rule: dec_induct)
  case base
  show ?case by (simp add: failed_tries_def)
next
  case (step n)
  from step have fail: "isl (t n)" and le: "n \<le> r" by auto
  from fail obtain e where e: "t n = Inl e" by (cases "t n") auto
  have "connect_loop t r d a tr = connect_loop t r d n (tr @ failed_tries t d a n)"
    using step by simp
  also have "\<dots> =
      connect_loop t r d (Suc n) ((tr @ failed_tries t d a n) @ [Attempt n, Warn e, Sleep d])"
    using le e by (subst connect_loop.simps) simp
  also have "(tr @ failed_tries t d a n) @ [Attempt n, Warn e, Sleep d] =
      tr @ failed_tries t d a (Suc n)"
    using step.hyps(1) e by (simp add: failed_tries_snoc)
  finally show ?case .
qed

lemma connect_loop_exhausted:
  assumes "\<forall>i. i \<le> r \<longrightarrow> isl (t i)"
  shows "connect_loop t r d 0 [] = (failed_tries t d 0 (r + 1), Inl ConnectionExhaustedError)"
proof -
  have "connect_loop t r d 0 [] = connect_loop t r d (r + 1) ([] @ failed_tries t d 0 (r + 1))"
    using assms by (intro connect_loop_skip) auto
  also have "\<dots> = (failed_tries t d 0 (r + 1), Inl ConnectionExhaustedError)"
    by (subst connect_loop.simps) (simp add: ConnectionExhaustedError_def)
  finally show ?thesis .
qed

lemma connect_loop_success:
  assumes "j \<le> r" and "\<forall>i. i < j \<longrightarrow> isl (t i)" and "t j = Inr conn"
  shows "connect_loop t r d 0 [] = (failed_tries t d 0 j @ [Attempt j], Inr conn)"
proof -
  have "connect_loop t r d 0 [] = connect_loop t r d j ([] @ failed_tries t d 0 j)"
    using assms by (intro connect_loop_skip) auto
  also have "\<dots> = (failed_tries t d 0 j @ [Attempt j], Inr conn)"
    using assms by (subst connect_loop.simps) simp
  finally show ?thesis .
qed

lemma failed_tries_four:
  "failed_tries t d 0 4 =
     [Attempt 0, Warn (projl (t 0)), Sleep d, Attempt 1, Warn (projl (t 1)), Sleep d,
      Attempt 2, Warn (projl (t 2)), Sleep d, Attempt 3, Warn (projl (t 3)), Sleep d]"
  by (simp add: failed_tries_def upt_rec numeral_eq_Suc)

lemma attempts_failed_tries: "length (filter is_attempt (failed_tries t d i j)) = j - i"
  by (induction j) (auto simp: failed_tries_def is_attempt_def)

lemma sleeps_failed_tries: "length (filter is_sleep (failed_tries t d i j)) = j - i"
  by (induction j) (auto simp: failed_tries_def is_sleep_def)

text \<open>
  C2. When every try fails, \<open>MySql.connect_to_db\<close> and \<open>PostGre.connect_to_db\<close> make
  exactly four tries, numbered 0 to 3, each followed by a warning and a sleep of 2 (the
  fourth too), and then raise the exception of the exhausted connection.
\<close>

theorem connect_to_db_always_failing:
  "((\<forall>i. isl (MySql_try db use_ssh i)) \<longrightarrow>
      MySql_connect_to_db db use_ssh =
        (failed_tries (MySql_try db use_ssh) 2 0 4, Inl ConnectionExhaustedError))
   \<and> ((\<forall>i. isl (PostGre_try db use_ssh i)) \<longrightarrow>
      PostGre_connect_to_db db use_ssh =
        (failed_tries (PostGre_try db use_ssh) 2 0 4, Inl ConnectionExhaustedError))
   \<and> failed_tries t 2 0 4 =
        [Attempt 0, Warn (projl (t 0)), Sleep 2, Attempt 1, Warn (projl (t 1)), Sleep 2,
         Attempt 2, Warn (projl (t 2)), Sleep 2, Attempt 3, Warn (projl (t 3)), Sleep 2]"
proof (intro conjI impI)
  assume "\<forall>i. isl (MySql_try db use_ssh i)"
  then have "connect_loop (MySql_try db use_ssh) 3 2 0 [] =
      (failed_tries (MySql_try db use_ssh) 2 0 (3 + 1), Inl ConnectionExhaustedError)"
    by (intro connect_loop_exhausted) simp
  then show "MySql_connect_to_db db use_ssh =
      (failed_tries (MySql_try db use_ssh) 2 0 4, Inl ConnectionExhaustedError)"
    by (simp add: MySql_connect_to_db_def)
next
  assume "\<forall>i. isl (PostGre_try db use_ssh i)"
  then have "connect_loop (PostGre_try db use_ssh) 3 2 0 [] =
      (failed_tries (PostGre_try db use_ssh) 2 0 (3 + 1), Inl ConnectionExhaustedError)"
    by (intro connect_loop_exhausted) simp
  then show "PostGre_connect_to_db db use_ssh =
      (failed_tries (PostGre_try db use_ssh) 2 0 4, Inl ConnectionExhaustedError)"
    by (simp add: PostGre_connect_to_db_def)
next
  show "failed_tries t 2 0 4 =
        [Attempt 0, Warn (projl (t 0)), Sleep 2, Attempt 1, Warn (projl (t 1)), Sleep 2,
         Attempt 2, Warn (projl (t 2)), Sleep 2, Attempt 3, Warn (projl (t 3)), Sleep 2]"
    by (rule failed_tries_four)
qed

theorem connect_to_db_always_failing_witness:
  "(\<forall>i. isl (MySql_try unreachable_db 0 i))
   \<and> (\<forall>i. isl (PostGre_try unreachable_db 0 i))
   \<and> MySql_connect_to_db unreachable_db 0 =
       ([Attempt 0, Warn (EngineError ''connection refused''), Sleep 2,
         Attempt 1, Warn (EngineError ''connection refused''), Sleep 2,
         Attempt 2, Warn (EngineError ''connection refused''), Sleep 2,
         Attempt 3, Warn (EngineError ''connection refused''), Sleep 2],
        Inl ConnectionExhaustedError)
   \<and> PostGre_connect_to_db unreachable_db 0 =
       ([Attempt 0, Warn (EngineError ''connection refused''), Sleep 2,
         Attempt 1, Warn (EngineError ''connection refused''), Sleep 2,
         Attempt 2, Warn (EngineError ''connection refused''), Sleep 2,
         Attempt 3, Warn (EngineError ''connection refused''), Sleep 2],
        Inl ConnectionExhaustedError)"
proof -
  have m: "\<forall>i. isl (MySql_try unreachable_db 0 i)"
    by (simp add: MySql_try_def unreachable_db_def)
  have p: "\<forall>i. isl (PostGre_try unreachable_db 0 i)"
    by (simp add: PostGre_try_def unreachable_db_def)
  have tm: "MySql_try unreachable_db 0 = (\<lambda>i. Inl (EngineError ''connection refused''))"
    by (simp add: MySql_try_def unreachable_db_def fun_eq_iff)
  have tp: "PostGre_try unreachable_db 0 = (\<lambda>i. Inl (EngineError ''connection refused''))"
    by (simp add: PostGre_try_def unreachable_db_def fun_eq_iff)
  note inst = connect_to_db_always_failing
    [of unreachable_db 0 "\<lambda>i. Inl (EngineError ''connection refused'')"]
  from inst m have e1: "MySql_connect_to_db unreachable_db 0 =
      (failed_tries (MySql_try unreachable_db 0) 2 0 4, Inl ConnectionExhaustedError)"
    by blast
  from inst p have e2: "PostGre_connect_to_db unreachable_db 0 =
      (failed_tries (PostGre_try unreachable_db 0) 2 0 4, Inl ConnectionExhaustedError)"
    by blast
  show ?thesis
    using m p by (simp add: e1 e2 tm tp failed_tries_four)
qed

text \<open>
  C4. When the try number \<open>k\<close> (1 to 4, so \<open>attempt = k - 1\<close>) is the first to succeed,
  both methods return its connection after exactly \<open>k\<close> tries: \<open>k - 1\<close> failed tries,
  each with its warning and its sleep of 2, then the successful try, after which nothing
  more happens.
\<close>

theorem connect_to_db_first_success:
  assumes "1 \<le> k" and "k \<le> 4"
  shows "((\<forall>i<k - 1. isl (MySql_try db use_ssh i)) \<and> MySql_try db use_ssh (k - 1) = Inr conn \<longrightarrow>
            MySql_connect_to_db db use_ssh =
              (failed_tries (MySql_try db use_ssh) 2 0 (k - 1) @ [Attempt (k - 1)], Inr conn))
       \<and> ((\<forall>i<k - 1. isl (PostGre_try db use_ssh i)) \<and> PostGre_try db use_ssh (k - 1) = Inr conn \<longrightarrow>
            PostGre_connect_to_db db use_ssh =
              (failed_tries (PostGre_try db use_ssh) 2 0 (k - 1) @ [Attempt (k - 1)], Inr conn))
       \<and> length (filter is_attempt (failed_tries t 2 0 (k - 1) @ [Attempt (k - 1)])) = k
       \<and> length (filter is_sleep (failed_tries t 2 0 (k - 1) @ [Attempt (k - 1)])) = k - 1
       \<and> last (failed_tries t 2 0 (k - 1) @ [Attempt (k - 1)]) = Attempt (k - 1)"
proof -
  from assms have le: "k - 1 \<le> 3" by simp
  have my: "MySql_connect_to_db db use_ssh =
              (failed_tries (MySql_try db use_ssh) 2 0 (k - 1) @ [Attempt (k - 1)], Inr conn)"
    if "\<forall>i<k - 1. isl (MySql_try db use_ssh i)" and "MySql_try db use_ssh (k - 1) = Inr conn"
    unfolding MySql_connect_to_db_def using le that by (rule connect_loop_success)
  have pg: "PostGre_connect_to_db db use_ssh =
              (failed_tries (PostGre_try db use_ssh) 2 0 (k - 1) @ [Attempt (k - 1)], Inr conn)"
    if "\<forall>i<k - 1. isl (PostGre_try db use_ssh i)" and "PostGre_try db use_ssh (k - 1) = Inr conn"
    unfolding PostGre_connect_to_db_def using le that by (rule connect_loop_success)
  have cnt: "length (filter is_attempt (failed_tries t 2 0 (k - 1) @ [Attempt (k - 1)])) = k"
    using assms by (simp add: attempts_failed_tries is_attempt_def)
  have slp: "length (filter is_sleep (failed_tries t 2 0 (k - 1) @ [Attempt (k - 1)])) = k - 1"
    by (simp add: sleeps_failed_tries is_sleep_def)
  show ?thesis using my pg cnt slp by simp
qed

theorem connect_to_db_first_success_witness:
  "(1::nat) \<le> 3 \<and> (3::nat) \<le> 4
   \<and> isl (MySql_try slow_db 1 0) \<and> isl (MySql_try slow_db 1 1)
   \<and> MySql_try slow_db 1 (3 - 1) = Inr 7
   \<and> isl (PostGre_try slow_db 1 0) \<and> isl (PostGre_try slow_db 1 1)
   \<and> PostGre_try slow_db 1 (3 - 1) = Inr 7
   \<and> MySql_connect_to_db slow_db 1 =
       ([Attempt 0, Warn (EngineError ''tunnel failed''), Sleep 2,
         Attempt 1, Warn (EngineError ''tunnel failed''), Sleep 2,
         Attempt 2], Inr 7)
   \<and> PostGre_connect_to_db slow_db 1 =
       ([Attempt 0, Warn (EngineError ''tunnel failed''), Sleep 2,
         Attempt 1, Warn (EngineError ''tunnel failed''), Sleep 2,
         Attempt 2], Inr 7)"
proof -
  have a: "(1::nat) \<le> 3" and b: "(3::nat) \<le> 4" by simp_all
  have m: "(\<forall>i<3 - 1. isl (MySql_try slow_db 1 i)) \<and> MySql_try slow_db 1 (3 - 1) = Inr 7"
    by (simp add: MySql_try_def slow_db_def)
  have p: "(\<forall>i<3 - 1. isl (PostGre_try slow_db 1 i)) \<and> PostGre_try slow_db 1 (3 - 1) = Inr 7"
    by (simp add: PostGre_try_def slow_db_def)
  have ft: "failed_tries (MySql_try slow_db 1) 2 0 2 =
       [Attempt 0, Warn (EngineError ''tunnel failed''), Sleep 2,
         Attempt 1, Warn (EngineError ''tunnel failed''), Sleep 2]"
    by (simp add: failed_tries_def upt_rec numeral_eq_Suc MySql_try_def slow_db_def)
  have fp: "failed_tries (PostGre_try slow_db 1) 2 0 2 =
       [Attempt 0, Warn (EngineError ''tunnel failed''), Sleep 2,
         Attempt 1, Warn (EngineError ''tunnel failed''), Sleep 2]"
    by (simp add: failed_tries_def upt_rec numeral_eq_Suc PostGre_try_def slow_db_def)
  note inst = connect_to_db_first_success [OF a b, of slow_db 1 7]
  from inst m have e1: "MySql_connect_to_db slow_db 1 =
      (failed_tries (MySql_try slow_db 1) 2 0 (3 - 1) @ [Attempt (3 - 1)], Inr 7)"
    by blast
  from inst p have e2: "PostGre_connect_to_db slow_db 1 =
      (failed_tries (PostGre_try slow_db 1) 2 0 (3 - 1) @ [Attempt (3 - 1)], Inr 7)"
    by blast
  from m p have tries:
    "isl (MySql_try slow_db 1 0) \<and> isl (MySql_try slow_db 1 1)
     \<and> MySql_try slow_db 1 (3 - 1) = Inr 7
     \<and> isl (PostGre_try slow_db 1 0) \<and> isl (PostGre_try slow_db 1 1)
     \<and> PostGre_try slow_db 1 (3 - 1) = Inr 7"
    by simp
  show ?thesis
    using tries by (simp add: e1 e2 ft fp)
qed

section \<open>Queries that return rows\<close>

text \<open>The list \<open>fetchall\<close> made is never the list the literal \<open>[]\<close> makes, so the
  rows come back whatever they are.\<close>

lemma MySql_execute_query_return_results_rows:
  "MySql_execute_query_return_results st conn script =
     (case conn script of Inl e \<Rightarrow> Inl e | Inr rows \<Rightarrow> Inr rows)"
  by (simp add: MySql_execute_query_return_results_def new_list_def nth_append split: sum.splits)

lemma PostGre_execute_query_return_results_rows:
  "PostGre_execute_query_return_results st conn script =
     (case conn script of Inl e \<Rightarrow> (False, Inl e) | Inr rows \<Rightarrow> (True, Inr rows))"
  by (simp add: PostGre_execute_query_return_results_def new_list_def nth_append
      split: sum.splits)

text \<open>
  C3, at the input where the code departs from it. For a query that produces no rows,
  neither method raises \<open>DatabaseReturnedNothingError\<close>: each returns the empty list
  (the PostgreSQL one after closing the connection).
\<close>

theorem execute_query_return_results_no_rows:
  "MySql_execute_query_return_results st (\<lambda>script. Inr []) script = Inr []
   \<and> PostGre_execute_query_return_results st (\<lambda>script. Inr []) script = (True, Inr [])"
  by (simp add: MySql_execute_query_return_results_def
      PostGre_execute_query_return_results_def new_list_def)

section \<open>Test ids\<close>

lemma construct_many_ids:
  "map test_id (fst (construct_many n c)) = map (\<lambda>i. c + int i) [0..<n]"
proof (induction n arbitrary: c)
  case 0
  show ?case by simp
next
  case (Suc n)
  have "map test_id (fst (construct_many (Suc n) c)) =
      c # map test_id (fst (construct_many n (c + 1)))"
    by (simp add: TestDefinition_init_def next_id_def split: prod.splits)
  also have "\<dots> = c # map (\<lambda>i. c + 1 + int i) [0..<n]"
    by (simp add: Suc.IH)
  also have "\<dots> = map (\<lambda>i. c + int i) [0..<Suc n]"
    by (simp add: map_upt_Suc del: upt_Suc)
  finally show ?case .
qed

lemma construct_many_ids_from_start:
  "map test_id (fst (construct_many n id_itr_start)) = map int [0..<n]"
  by (simp add: construct_many_ids id_itr_start_def)

text \<open>
  C6. The ids of any number of \<open>TestDefinition\<close> objects built one after the other,
  from any state of the class's counter, are strictly increasing in the order of
  construction and pairwise different.
\<close>

theorem test_ids_increasing_distinct:
  "sorted_wrt (<) (map test_id (fst (construct_many n id_itr)))
   \<and> distinct (map test_id (fst (construct_many n id_itr)))"
  by (simp add: construct_many_ids sorted_wrt_map distinct_map inj_on_def)

end
